theory Spec2Isabelle
  imports Main "HOL-Library.AList" "HOL-Library.Sublist"
begin

section \<open>The document-management front end (frontend/Front.js)\<close>

text \<open>
  The script is a set of event handlers over three module variables (\<open>currentUser\<close>,
  \<open>documents\<close>, \<open>accessToken\<close>), the browser's local storage and the page. Each handler
  is modelled as a function on a record of that state. An \<open>async\<close> function is split at
  its \<open>await fetch(...)\<close>: the part before it (\<open>_start\<close>) sends the request, the part
  after it (\<open>_resume\<close>) runs when the fetch settles, on the state of that moment, with
  the outcome of the fetch as its argument. Other handlers may run between the two. The
  \<open>_resume\<close> part is also given the request that was answered, which it writes to the
  log of network events and does not otherwise use.

  Strings are lists of code units below 256 (\<open>string\<close>); \<open>length\<close> is the length
  JavaScript reports for such strings.
\<close>

subsection \<open>JavaScript values and errors\<close>

text \<open>
  What a property read of a parsed JSON body can give. A number is a double, and how a
  double is written as a string is the platform's (\<open>1e21\<close> is written \<open>1e+21\<close>), so a
  number carries its string: \<open>JZero\<close> is 0 or -0, both written \<open>0\<close>, and \<open>JNum s\<close> is
  any other number, whose conversion to a string is \<open>s\<close> (a parsed JSON number is never
  \<open>NaN\<close>). \<open>JObject s\<close> is an array or an object, whose conversion to a string is \<open>s\<close>.
\<close>

datatype js_value =
    JUndefined
  | JNull
  | JBool bool
  | JZero
  | JNum string
  | JStr string
  | JObject string

text \<open>Thrown values: \<open>Error\<close> is what \<open>new Error(msg)\<close> builds; the others come from the
  platform (\<open>fetch\<close> rejects with a \<open>TypeError\<close>, \<open>response.json()\<close> with a
  \<open>SyntaxError\<close>).\<close>

datatype js_error = Error string | TypeError string | SyntaxError string

fun message :: "js_error \<Rightarrow> string" where
  "message (Error m) = m"
| "message (TypeError m) = m"
| "message (SyntaxError m) = m"

fun truthy :: "js_value \<Rightarrow> bool" where
  "truthy JUndefined = False"
| "truthy JNull = False"
| "truthy (JBool b) = b"
| "truthy JZero = False"
| "truthy (JNum s) = True"
| "truthy (JStr s) = (s \<noteq> [])"
| "truthy (JObject s) = True"

text \<open>\<open>a || b\<close>\<close>

definition js_or :: "js_value \<Rightarrow> js_value \<Rightarrow> js_value" where
  "js_or a b = (if truthy a then a else b)"

text \<open>The decimal digits of a natural number: how the template literal writes
  \<open>response.status\<close>, an unsigned short.\<close>

definition digit_char :: "nat \<Rightarrow> char" where
  "digit_char d = char_of (48 + d)"

fun decimal :: "nat \<Rightarrow> string" where
  "decimal n = (if n < 10 then [digit_char n] else decimal (n div 10) @ [digit_char (n mod 10)])"

declare decimal.simps [simp del]

text \<open>String conversion, as a template literal and \<open>new Error(v)\<close> apply it.\<close>

fun ToString :: "js_value \<Rightarrow> string" where
  "ToString JUndefined = ''undefined''"
| "ToString JNull = ''null''"
| "ToString (JBool b) = (if b then ''true'' else ''false'')"
| "ToString JZero = ''0''"
| "ToString (JNum s) = s"
| "ToString (JStr s) = s"
| "ToString (JObject s) = s"

text \<open>\<open>new Error(v)\<close>: the message is empty for \<open>undefined\<close>, the string conversion of
  \<open>v\<close> otherwise.\<close>

definition new_Error :: "js_value \<Rightarrow> js_error" where
  "new_Error v = Error (case v of JUndefined \<Rightarrow> [] | _ \<Rightarrow> ToString v)"

subsection \<open>Documents, files, requests and responses\<close>

record doc =
  docid :: string
  filename :: string
  category :: string
  author :: "string option"
  upload_date :: string
  summary :: "string option"

record user =
  username :: string
  role :: string

record js_file =
  name :: string
  type :: string

datatype req_body = No_body | Text_body string | FormData "(string \<times> js_file) list"

record request =
  url :: string
  http_method :: "string option"
  headers :: "(string \<times> string) list"
  body :: req_body

text \<open>
  How the body of an error response reads through \<open>await response.json()\<close> followed by
  \<open>.detail\<close>: the parse rejects; or the body is JSON \<open>null\<close> and the property read throws
  the engine's \<open>TypeError\<close>; or the read gives a value (\<open>JUndefined\<close> when the parsed
  value has no such property).
\<close>

datatype err_json = Json_rejects js_error | Json_null js_error | Json_detail js_value

text \<open>
  A \<open>Response\<close>. The code reads its body in one of two ways, by its status: on the
  success path with \<open>response.json()\<close> or \<open>response.blob()\<close>, which rejects
  (\<open>Inl\<close>) or gives the endpoint's payload, typed as the backend sends it
  (\<open>ok_body\<close>); on the error path for its \<open>detail\<close> (\<open>err_body\<close>).
  \<open>response.ok\<close> is the Fetch standard's: the status is in 200..299. The status is an
  unsigned short, at most 65535.
\<close>

record 'a response =
  status :: nat
  ok_body :: "js_error + 'a"
  err_body :: err_json

definition ok :: "'a response \<Rightarrow> bool" where
  "ok r = (200 \<le> status r \<and> status r \<le> 299)"

text \<open>A fetch settles: the promise rejects (network unreachable, timeout) or resolves
  with a response, of any status.\<close>

datatype 'a fetch_outcome = Rejected js_error | Resolved "'a response"

subsection \<open>The state\<close>

datatype page = loginPage | signupPage | dashboard

text \<open>Requests sent by \<open>fetch\<close> and fetches settled, in the order they happen.\<close>

datatype net_event = Request_sent request | Response_received request

text \<open>
  \<open>localStorage\<close> is its \<open>access_token\<close> entry; \<open>displayed\<close> is which of the three page
  containers is shown; \<open>documentsGrid\<close> is the list the grid was last rendered from (the
  markup is a function of it); the two \<open>_markup\<close> fields are the strings last assigned
  as content of the two select elements; \<open>alerts\<close> are the messages shown by \<open>alert\<close>,
  \<open>downloads\<close> the file names given to the browser's download, \<open>net_log\<close> the network
  events, all oldest first. \<open>searchInput\<close> is the value of the search field and
  \<open>searchTimeout\<close> the time at which the pending timer fires, if one is pending.
\<close>

record state =
  currentUser :: "user option"
  documents :: "doc list"
  accessToken :: "string option"
  localStorage :: "string option"
  displayed :: page
  documentsGrid :: "doc list"
  categoryFilter_markup :: string
  authorFilter_markup :: string
  alerts :: "string list"
  downloads :: "string list"
  net_log :: "net_event list"
  searchInput :: string
  searchTimeout :: "nat option"

definition alert :: "string \<Rightarrow> state \<Rightarrow> state" where
  "alert m st = st\<lparr>alerts := alerts st @ [m]\<rparr>"

definition sent :: "request \<Rightarrow> state \<Rightarrow> state" where
  "sent rq st = st\<lparr>net_log := net_log st @ [Request_sent rq]\<rparr>"

definition received :: "request \<Rightarrow> state \<Rightarrow> state" where
  "received rq st = st\<lparr>net_log := net_log st @ [Response_received rq]\<rparr>"

subsection \<open>Session: showLogin, logout\<close>

definition showLogin :: "state \<Rightarrow> state" where
  "showLogin st = st\<lparr>displayed := loginPage\<rparr>"

definition logout :: "state \<Rightarrow> state" where
  "logout st =
     showLogin (st\<lparr>currentUser := None, accessToken := None, localStorage := None,
                   documents := []\<rparr>)"

subsection \<open>apiCall\<close>

definition API_BASE_URL :: string where
  "API_BASE_URL = ''http://localhost:8000''"

text \<open>The \<open>options\<close> argument: the properties \<open>apiCall\<close> and \<open>fetch\<close> read.\<close>

record options =
  opt_method :: "string option"
  opt_headers :: "(string \<times> string) list"
  opt_body :: req_body

definition no_options :: options where
  "no_options = \<lparr>opt_method = None, opt_headers = [], opt_body = No_body\<rparr>"

text \<open>\<open>if (accessToken)\<close>: a token that is \<open>null\<close> or empty adds no header.\<close>

definition defaultHeaders :: "state \<Rightarrow> (string \<times> string) list" where
  "defaultHeaders st =
     (''Content-Type'', ''application/json'') #
     (case accessToken st of
        None \<Rightarrow> []
      | Some t \<Rightarrow> if t = [] then [] else [(''Authorization'', ''Bearer '' @ t)])"

text \<open>The request \<open>apiCall\<close> hands to \<open>fetch\<close>: the caller's headers are spread over the
  defaults.\<close>

definition apiCall_request :: "state \<Rightarrow> string \<Rightarrow> options \<Rightarrow> request" where
  "apiCall_request st endpoint opts =
     \<lparr>url = API_BASE_URL @ endpoint,
      http_method = opt_method opts,
      headers = foldl (\<lambda>h (k, v). AList.update k v h) (defaultHeaders st) (opt_headers opts),
      body = opt_body opts\<rparr>"

text \<open>
  After the fetch has settled: the state and what the caller gets, a thrown value
  (\<open>Inl\<close>) or the response. The \<open>catch\<close> of \<open>apiCall\<close> rethrows what it caught.
\<close>

definition apiCall_resume ::
  "'a fetch_outcome \<Rightarrow> state \<Rightarrow> state \<times> (js_error + 'a response)" where
  "apiCall_resume outcome st =
     (case outcome of
        Rejected e \<Rightarrow> (st, Inl e)
      | Resolved response \<Rightarrow>
          if \<not> ok response then
            if status response = 401 then
              (logout st, Inl (Error ''Session expired. Please login again.''))
            else
              (case err_body response of
                 Json_rejects e \<Rightarrow> (st, Inl (new_Error (js_or (JStr ''Request failed'')
                     (JStr (''HTTP '' @ decimal (status response))))))
               | Json_null e \<Rightarrow> (st, Inl e)
               | Json_detail d \<Rightarrow> (st, Inl (new_Error (js_or d
                     (JStr (''HTTP '' @ decimal (status response)))))))
          else (st, Inr response))"

subsection \<open>String functions of the platform\<close>

text \<open>\<open>String.prototype.toLowerCase\<close> on code units below 256: the letters A..Z and the
  Latin-1 capitals 192..222, but for the multiplication sign 215, move up by 32.\<close>

definition lower_char :: "char \<Rightarrow> char" where
  "lower_char c =
     (let n = (of_char c :: nat) in
      if (65 \<le> n \<and> n \<le> 90) \<or> (192 \<le> n \<and> n \<le> 222 \<and> n \<noteq> 215) then char_of (n + 32) else c)"

definition toLowerCase :: "string \<Rightarrow> string" where
  "toLowerCase s = map lower_char s"

text \<open>\<open>String.prototype.trim\<close>: the white space and line terminators below 256 are tab,
  line feed, vertical tab, form feed, carriage return, space and the no-break space.\<close>

definition is_space :: "char \<Rightarrow> bool" where
  "is_space c = ((of_char c :: nat) \<in> {9, 10, 11, 12, 13, 32, 160})"

definition trim :: "string \<Rightarrow> string" where
  "trim s = rev (dropWhile is_space (rev (dropWhile is_space s)))"

text \<open>\<open>s.includes(t)\<close> (named \<open>str_includes\<close> here): \<open>t\<close> occurs in \<open>s\<close> as a contiguous run.\<close>

fun str_includes :: "string \<Rightarrow> string \<Rightarrow> bool" where
  "str_includes [] t = (t = [])"
| "str_includes (c # cs) t = (prefix t (c # cs) \<or> str_includes cs t)"

definition hex_digit :: "nat \<Rightarrow> char" where
  "hex_digit d = (if d < 10 then char_of (48 + d) else char_of (55 + d))"

definition percent :: "nat \<Rightarrow> string" where
  "percent b = [CHR ''%'', hex_digit (b div 16), hex_digit (b mod 16)]"

text \<open>The characters \<open>encodeURIComponent\<close> leaves as they are: letters, digits and
  \<open>- _ . ! ~ * ' ( )\<close>.\<close>

definition uri_unreserved :: "nat \<Rightarrow> bool" where
  "uri_unreserved n =
     ((65 \<le> n \<and> n \<le> 90) \<or> (97 \<le> n \<and> n \<le> 122) \<or> (48 \<le> n \<and> n \<le> 57) \<or>
      n \<in> {45, 95, 46, 33, 126, 42, 39, 40, 41})"

text \<open>Every other code unit is written as the bytes of its UTF-8 encoding, each as
  \<open>%XX\<close>: one byte below 128, two from 128 to 255.\<close>

definition encode_char :: "char \<Rightarrow> string" where
  "encode_char c =
     (let n = (of_char c :: nat) in
      if uri_unreserved n then [c]
      else if n < 128 then percent n
      else percent (192 + n div 64) @ percent (128 + n mod 64))"

definition encodeURIComponent :: "string \<Rightarrow> string" where
  "encodeURIComponent s = concat (map encode_char s)"

subsection \<open>Dates\<close>

text \<open>
  A \<open>Date\<close> object holds a time value, an integral number of milliseconds since the
  epoch of magnitude at most 8.64e15, or is invalid. What the platform decides is taken
  as a parameter: how \<open>new Date(string)\<close> parses (the time value of the date the string
  denotes, \<open>None\<close> when it denotes none), and the offset of local time from UTC at a
  given time. \<open>TimeClip\<close> is what \<open>new Date(number)\<close> applies.
\<close>

datatype js_date = Invalid_Date | Date int

record platform =
  Date_parse :: "string \<Rightarrow> int option"
  local_offset :: "int \<Rightarrow> int"

definition TimeClip :: "int \<Rightarrow> js_date" where
  "TimeClip v = (if \<bar>v\<bar> \<le> 8640000000000000 then Date v else Invalid_Date)"

definition new_Date_string :: "platform \<Rightarrow> string \<Rightarrow> js_date" where
  "new_Date_string pf s = (case Date_parse pf s of None \<Rightarrow> Invalid_Date | Some v \<Rightarrow> Date v)"

text \<open>\<open>toDateString()\<close> writes the week day, month, day and year of the local day, so two
  valid dates give the same string exactly when their local day numbers are equal.\<close>

datatype date_string = Invalid_Date_string | Local_day int

definition toDateString :: "platform \<Rightarrow> js_date \<Rightarrow> date_string" where
  "toDateString pf d =
     (case d of
        Invalid_Date \<Rightarrow> Invalid_Date_string
      | Date v \<Rightarrow> Local_day ((v + local_offset pf v) div 86400000))"

text \<open>\<open>a >= b\<close> on dates compares the time values and is false when one is \<open>NaN\<close>.\<close>

fun date_ge :: "js_date \<Rightarrow> js_date \<Rightarrow> bool" where
  "date_ge (Date a) (Date b) = (a \<ge> b)"
| "date_ge _ _ = False"

subsection \<open>The document collection: renderDocuments, updateFilters, loadDocuments\<close>

definition renderDocuments :: "doc list \<Rightarrow> state \<Rightarrow> state" where
  "renderDocuments docs st = st\<lparr>documentsGrid := docs\<rparr>"

text \<open>\<open>[...new Set(xs)]\<close>: the distinct elements, each at its first occurrence.\<close>

definition Set_spread :: "'a list \<Rightarrow> 'a list" where
  "Set_spread xs = rev (remdups (rev xs))"

text \<open>The markup of one option, and the markup the function assigns to each of the two
  select elements: the string the code builds, as it builds it.\<close>

definition option_markup :: "string \<Rightarrow> string \<Rightarrow> string" where
  "option_markup v label =
     ''<option value='' @ [CHR 0x22] @ v @ [CHR 0x22] @ ''>'' @ label @ ''</option>''"

definition updateFilters :: "state \<Rightarrow> state" where
  "updateFilters st =
     (let categories = Set_spread (map category (documents st));
          authors = Set_spread (filter (\<lambda>a. a \<noteq> []) (List.map_filter author (documents st)))
      in st\<lparr>categoryFilter_markup :=
               option_markup [] ''All Categories'' @
               concat (map (\<lambda>cat. option_markup (toLowerCase cat) cat) categories),
             authorFilter_markup :=
               option_markup [] ''All Authors'' @
               concat (map (\<lambda>author. option_markup author author) authors)\<rparr>)"

definition loadDocuments_start :: "state \<Rightarrow> state" where
  "loadDocuments_start st = sent (apiCall_request st ''/documents/'' no_options) st"

definition loadDocuments_resume :: "request \<Rightarrow> doc list fetch_outcome \<Rightarrow> state \<Rightarrow> state" where
  "loadDocuments_resume rq outcome st =
     (case apiCall_resume outcome (received rq st) of
        (st1, Inl error) \<Rightarrow> alert ''Failed to load documents. Please refresh the page.'' st1
      | (st1, Inr response) \<Rightarrow>
          (case ok_body response of
             Inl error \<Rightarrow> alert ''Failed to load documents. Please refresh the page.'' st1
           | Inr docs \<Rightarrow> updateFilters (renderDocuments docs (st1\<lparr>documents := docs\<rparr>))))"

subsection \<open>Upload: uploadSingleFile, handleFileUpload\<close>

text \<open>
  \<open>uploadSingleFile\<close> and \<open>downloadDocument\<close> call \<open>fetch\<close> themselves. They are modelled
  whole, with the outcome of their fetch as an argument (no other handler runs while the
  request is in flight). The template literal writes a \<open>null\<close> token as \<open>null\<close>. The
  progress bar is not part of the state.
\<close>

definition bearer :: "state \<Rightarrow> string" where
  "bearer st = ''Bearer '' @ (case accessToken st of None \<Rightarrow> ''null'' | Some t \<Rightarrow> t)"

definition upload_request :: "state \<Rightarrow> js_file \<Rightarrow> request" where
  "upload_request st file =
     \<lparr>url = API_BASE_URL @ ''/documents/'',
      http_method = Some ''POST'',
      headers = [(''Authorization'', bearer st)],
      body = FormData [(''file'', file)]\<rparr>"

text \<open>The result is the state and the error thrown, if one is.\<close>

definition uploadSingleFile ::
  "js_file \<Rightarrow> 'a fetch_outcome \<Rightarrow> state \<Rightarrow> state \<times> js_error option" where
  "uploadSingleFile file outcome st =
     (let st1 = received (upload_request st file) (sent (upload_request st file) st) in
      case outcome of
        Rejected e \<Rightarrow> (st1, Some e)
      | Resolved response \<Rightarrow>
          if ok response then
            (case ok_body response of
               Inl e \<Rightarrow> (st1, Some e)
             | Inr result \<Rightarrow> (st1, None))
          else
            (case err_body response of
               Json_rejects e \<Rightarrow> (st1, Some e)
             | Json_null e \<Rightarrow> (st1, Some e)
             | Json_detail d \<Rightarrow> (st1, Some (new_Error (js_or d (JStr ''Upload failed''))))))"

definition allowedTypes :: "string list" where
  "allowedTypes =
     [''application/pdf'',
      ''application/vnd.openxmlformats-officedocument.wordprocessingml.document'',
      ''text/plain'']"

definition not_supported :: "js_file \<Rightarrow> string" where
  "not_supported file =
     ''File '' @ [CHR 0x22] @ name file @ [CHR 0x22] @
     '' is not supported. Please upload PDF, DOCX, or TXT files only.''"

definition upload_failed :: "js_file \<Rightarrow> js_error \<Rightarrow> string" where
  "upload_failed file error = ''Failed to upload '' @ name file @ '': '' @ message error"

text \<open>The \<open>for\<close> loop over the files, each paired with the outcome its upload would
  have.\<close>

fun upload_each :: "(js_file \<times> 'a fetch_outcome) list \<Rightarrow> state \<Rightarrow> state" where
  "upload_each [] st = st"
| "upload_each ((file, outcome) # rest) st =
     (if type file \<notin> set allowedTypes then upload_each rest (alert (not_supported file) st)
      else
        (case uploadSingleFile file outcome st of
           (st1, None) \<Rightarrow> upload_each rest st1
         | (st1, Some error) \<Rightarrow> upload_each rest (alert (upload_failed file error) st1)))"

text \<open>After the loop \<open>loadDocuments()\<close> is called and not awaited: its request is sent,
  and its fetch settles later.\<close>

definition handleFileUpload :: "(js_file \<times> 'a fetch_outcome) list \<Rightarrow> state \<Rightarrow> state" where
  "handleFileUpload files st =
     (if length files = 0 then st else loadDocuments_start (upload_each files st))"

subsection \<open>Download\<close>

definition download_request :: "state \<Rightarrow> string \<Rightarrow> request" where
  "download_request st docId =
     \<lparr>url = API_BASE_URL @ ''/documents/'' @ docId @ ''/download'',
      http_method = None,
      headers = [(''Authorization'', bearer st)],
      body = No_body\<rparr>"

text \<open>Whatever is thrown in the \<open>try\<close> block ends in the same alert.\<close>

definition downloadDocument :: "string \<Rightarrow> 'a fetch_outcome \<Rightarrow> state \<Rightarrow> state" where
  "downloadDocument docId outcome st =
     (let st1 = received (download_request st docId) (sent (download_request st docId) st) in
      case outcome of
        Rejected e \<Rightarrow> alert ''Download failed. Please try again.'' st1
      | Resolved response \<Rightarrow>
          if ok response then
            (case ok_body response of
               Inl e \<Rightarrow> alert ''Download failed. Please try again.'' st1
             | Inr blob \<Rightarrow> st1\<lparr>downloads := downloads st1 @ [''document_'' @ docId]\<rparr>)
          else alert ''Download failed. Please try again.'' st1)"

subsection \<open>Search: the input listener, its timer, performSemanticSearch\<close>

definition performSemanticSearch_start :: "string \<Rightarrow> state \<Rightarrow> state" where
  "performSemanticSearch_start query st =
     sent (apiCall_request st (''/search/?query='' @ encodeURIComponent query) no_options) st"

definition performSemanticSearch_resume ::
  "request \<Rightarrow> doc list fetch_outcome \<Rightarrow> state \<Rightarrow> state" where
  "performSemanticSearch_resume rq outcome st =
     (case apiCall_resume outcome (received rq st) of
        (st1, Inl error) \<Rightarrow> alert ''Search failed. Please try again.'' st1
      | (st1, Inr response) \<Rightarrow>
          (case ok_body response of
             Inl error \<Rightarrow> alert ''Search failed. Please try again.'' st1
           | Inr searchResults \<Rightarrow> renderDocuments searchResults st1))"

text \<open>
  The \<open>input\<close> event at time \<open>t\<close> (milliseconds): the browser has set the field to \<open>v\<close>;
  the listener clears the pending timer and sets one for 500 ms later.
\<close>

definition searchInput_input :: "nat \<Rightarrow> string \<Rightarrow> state \<Rightarrow> state" where
  "searchInput_input t v st = st\<lparr>searchInput := v, searchTimeout := Some (t + 500)\<rparr>"

text \<open>The timer's callback reads the field when it runs.\<close>

definition searchTimeout_callback :: "state \<Rightarrow> state" where
  "searchTimeout_callback st =
     (let searchTerm = trim (searchInput st) in
      if length searchTerm \<ge> 3 then performSemanticSearch_start searchTerm st
      else if length searchTerm = 0 then renderDocuments (documents st) st
      else st)"

text \<open>Time passes up to \<open>t\<close>: a pending timer whose time has come fires, once.\<close>

definition advance :: "nat \<Rightarrow> state \<Rightarrow> state" where
  "advance t st =
     (case searchTimeout st of
        None \<Rightarrow> st
      | Some due \<Rightarrow> if due \<le> t then searchTimeout_callback (st\<lparr>searchTimeout := None\<rparr>) else st)"

text \<open>A sequence of keystrokes, each with its time and the value of the field after it.\<close>

fun keystrokes :: "(nat \<times> string) list \<Rightarrow> state \<Rightarrow> state" where
  "keystrokes [] st = st"
| "keystrokes ((t, v) # rest) st = keystrokes rest (searchInput_input t v (advance t st))"

text \<open>Keystrokes in the order of their times, each less than 500 ms after the one
  before it.\<close>

fun within_window :: "(nat \<times> string) list \<Rightarrow> bool" where
  "within_window [] = True"
| "within_window [k] = True"
| "within_window ((t1, v1) # (t2, v2) # rest) =
     (t1 \<le> t2 \<and> t2 < t1 + 500 \<and> within_window ((t2, v2) # rest))"

subsection \<open>filterDocuments\<close>

text \<open>
  The arguments are the platform, the time value of \<open>new Date()\<close> and the values of the
  three select elements as the function reads them.
\<close>

definition date_matches :: "platform \<Rightarrow> int \<Rightarrow> string \<Rightarrow> doc \<Rightarrow> bool" where
  "date_matches pf now dateFilter d =
     (let docDate = new_Date_string pf (upload_date d) in
      if dateFilter = ''today'' then toDateString pf docDate = toDateString pf (TimeClip now)
      else if dateFilter = ''week'' then date_ge docDate (TimeClip (now - 7 * 24 * 60 * 60 * 1000))
      else if dateFilter = ''month'' then date_ge docDate (TimeClip (now - 30 * 24 * 60 * 60 * 1000))
      else True)"

definition filterDocuments ::
  "platform \<Rightarrow> int \<Rightarrow> string \<Rightarrow> string \<Rightarrow> string \<Rightarrow> state \<Rightarrow> state" where
  "filterDocuments pf now categoryValue authorFilter dateFilter st =
     (let categoryFilter = toLowerCase categoryValue;
          filteredDocs = documents st;
          filteredDocs =
            (if categoryFilter \<noteq> []
             then filter (\<lambda>d. toLowerCase (category d) = categoryFilter) filteredDocs
             else filteredDocs);
          filteredDocs =
            (if authorFilter \<noteq> []
             then filter (\<lambda>d. case author d of None \<Rightarrow> False
                                | Some a \<Rightarrow> a \<noteq> [] \<and> str_includes a authorFilter) filteredDocs
             else filteredDocs);
          filteredDocs =
            (if dateFilter \<noteq> []
             then filter (date_matches pf now dateFilter) filteredDocs
             else filteredDocs)
      in renderDocuments filteredDocs st)"

section \<open>Example inputs\<close>

definition doc_a :: doc where
  "doc_a = \<lparr>docid = ''d1'', filename = ''budget.pdf'', category = ''Finance'',
            author = Some ''Joanne'', upload_date = ''2024-05-01T10:00:00'', summary = None\<rparr>"

definition doc_b :: doc where
  "doc_b = \<lparr>docid = ''d2'', filename = ''contract.txt'', category = ''Legal'',
            author = None, upload_date = ''2024-05-20T09:30:00'', summary = Some ''Lease''\<rparr>"

definition st0 :: state where
  "st0 = \<lparr>currentUser = Some \<lparr>username = ''admin'', role = ''Admin''\<rparr>,
          documents = [doc_a, doc_b],
          accessToken = Some ''tok123'',
          localStorage = Some ''tok123'',
          displayed = dashboard,
          documentsGrid = [doc_a, doc_b],
          categoryFilter_markup = [],
          authorFilter_markup = [],
          alerts = [],
          downloads = [],
          net_log = [],
          searchInput = [],
          searchTimeout = None\<rparr>"

text \<open>A response with a payload, and the backend's answer to a token it rejects.\<close>

definition ok_response :: "'a \<Rightarrow> 'a response" where
  "ok_response payload =
     \<lparr>status = 200, ok_body = Inr payload, err_body = Json_detail JUndefined\<rparr>"

definition error_response :: "nat \<Rightarrow> err_json \<Rightarrow> 'a response" where
  "error_response code e =
     \<lparr>status = code, ok_body = Inl (SyntaxError ''Unexpected token''), err_body = e\<rparr>"

definition unauthorized :: "'a response" where
  "unauthorized = error_response 401 (Json_detail (JStr ''Could not validate credentials''))"

text \<open>Two searches sent from \<open>st0\<close>, the second while the first is in flight.\<close>

definition search_request :: "string \<Rightarrow> request" where
  "search_request q =
     apiCall_request st0 (''/search/?query='' @ encodeURIComponent q) no_options"

definition two_searches :: state where
  "two_searches = performSemanticSearch_start ''lease'' (performSemanticSearch_start ''lea'' st0)"

text \<open>Three files of a batch, the second of a type that is not allowed, and the outcome
  of an upload that succeeds.\<close>

definition file1 :: js_file where
  "file1 = \<lparr>name = ''q1.pdf'', type = ''application/pdf''\<rparr>"

definition file2 :: js_file where
  "file2 = \<lparr>name = ''photo.png'', type = ''image/png''\<rparr>"

definition file3 :: js_file where
  "file3 = \<lparr>name = ''notes.txt'', type = ''text/plain''\<rparr>"

definition uploaded :: "unit fetch_outcome" where
  "uploaded = Resolved (ok_response ())"

text \<open>A document dated an hour after \<open>now0\<close>, and a platform that parses the three
  dates of the examples as UTC and whose local time is UTC.\<close>

definition doc_c :: doc where
  "doc_c = \<lparr>docid = ''d3'', filename = ''minutes.txt'', category = ''HR'',
            author = Some ''Ann Lee'', upload_date = ''2024-05-21T15:00:00'', summary = None\<rparr>"

definition pf0 :: platform where
  "pf0 = \<lparr>Date_parse = (\<lambda>s.
             if s = ''2024-05-01T10:00:00'' then Some 1714557600000
             else if s = ''2024-05-20T09:30:00'' then Some 1716197400000
             else if s = ''2024-05-21T15:00:00'' then Some 1716303600000
             else None),
           local_offset = (\<lambda>t. 0)\<rparr>"

definition now0 :: int where
  "now0 = 1716300000000"

section \<open>Properties\<close>

text \<open>
  C1, as the code has it. No sequence number is kept or compared: a successful search
  response renders its result whenever it arrives. When the second of two searches
  settles first (with any outcome) and the first settles after it, the view shows the
  result of the first.
\<close>

theorem search_last_arrival_wins:
  "ok r1 \<Longrightarrow> ok_body r1 = Inr ds1 \<Longrightarrow>
     documentsGrid
       (performSemanticSearch_resume rq1 (Resolved r1)
         (performSemanticSearch_resume rq2 outcome2
           (performSemanticSearch_start q2 (performSemanticSearch_start q1 st)))) = ds1"
  by (simp add: performSemanticSearch_resume_def [of rq1] apiCall_resume_def
      received_def renderDocuments_def)

theorem search_last_arrival_wins_witness:
  "ok (ok_response [doc_a]) \<and>
   documentsGrid
     (performSemanticSearch_resume (search_request ''lea'') (Resolved (ok_response [doc_a]))
       (performSemanticSearch_resume (search_request ''lease'') (Resolved (ok_response [doc_b]))
         (performSemanticSearch_start ''lease'' (performSemanticSearch_start ''lea'' st0))))
     = [doc_a]"
proof -
  have h1: "ok (ok_response [doc_a])"
    by (simp add: ok_def ok_response_def)
  have h2: "ok_body (ok_response [doc_a]) = Inr [doc_a]"
    by (simp add: ok_response_def)
  show ?thesis
    using h1 search_last_arrival_wins [OF h1 h2] by simp
qed

text \<open>
  The search for \<open>lea\<close> is sent first and the search for \<open>lease\<close> second; the response
  to \<open>lease\<close> arrives first and is rendered; the response to \<open>lea\<close> arrives after it and
  overwrites the view.
\<close>

theorem stale_search_discarded_counterexample:
  "documentsGrid
     (performSemanticSearch_resume (search_request ''lease'') (Resolved (ok_response [doc_b]))
        two_searches) = [doc_b] \<and>
   documentsGrid
     (performSemanticSearch_resume (search_request ''lea'') (Resolved (ok_response [doc_a]))
       (performSemanticSearch_resume (search_request ''lease'') (Resolved (ok_response [doc_b]))
          two_searches)) = [doc_a] \<and>
   [doc_a] \<noteq> [doc_b] \<and>
   net_log
     (performSemanticSearch_resume (search_request ''lea'') (Resolved (ok_response [doc_a]))
       (performSemanticSearch_resume (search_request ''lease'') (Resolved (ok_response [doc_b]))
          two_searches)) =
     [Request_sent (search_request ''lea''), Request_sent (search_request ''lease''),
      Response_received (search_request ''lease''), Response_received (search_request ''lea'')]"
  by (simp add: performSemanticSearch_resume_def performSemanticSearch_start_def
      apiCall_resume_def ok_def ok_response_def received_def sent_def renderDocuments_def
      search_request_def two_searches_def apiCall_request_def defaultHeaders_def st0_def
      doc_a_def doc_b_def)

text \<open>
  C2 fails on the upload and the download, which call \<open>fetch\<close> themselves. With the
  token \<open>tok123\<close> held and the backend answering 401, \<open>uploadSingleFile\<close> keeps the
  token in memory and in storage and throws the backend's reason, and
  \<open>downloadDocument\<close> keeps the token and shows its generic alert; the same response
  through \<open>apiCall\<close> clears the token.
\<close>

theorem upload_download_401_keep_session:
  "accessToken (fst (uploadSingleFile f (Resolved (unauthorized :: unit response)) st0))
     = Some ''tok123'' \<and>
   localStorage (fst (uploadSingleFile f (Resolved (unauthorized :: unit response)) st0))
     = Some ''tok123'' \<and>
   snd (uploadSingleFile f (Resolved (unauthorized :: unit response)) st0)
     = Some (Error ''Could not validate credentials'') \<and>
   accessToken (downloadDocument ''d1'' (Resolved (unauthorized :: unit response)) st0)
     = Some ''tok123'' \<and>
   localStorage (downloadDocument ''d1'' (Resolved (unauthorized :: unit response)) st0)
     = Some ''tok123'' \<and>
   alerts (downloadDocument ''d1'' (Resolved (unauthorized :: unit response)) st0)
     = [''Download failed. Please try again.''] \<and>
   accessToken (fst (apiCall_resume (Resolved (unauthorized :: unit response)) st0)) = None \<and>
   snd (apiCall_resume (Resolved (unauthorized :: unit response)) st0)
     = Inl (Error ''Session expired. Please login again.'')"
  by (simp add: uploadSingleFile_def downloadDocument_def Let_def unauthorized_def
      error_response_def ok_def received_def sent_def st0_def js_or_def new_Error_def alert_def
      apiCall_resume_def logout_def showLogin_def)

text \<open>
  C3, as the code has it. The caller of \<open>apiCall\<close> gets the response object itself when
  its status is a success, and otherwise a thrown value: on a transport failure the
  rejection of \<open>fetch\<close>, rethrown as it is; on 401, after the logout, an \<open>Error\<close> with the
  session-expired message; on any other status an \<open>Error\<close> whose message is
  \<open>Request failed\<close> when the body does not parse, the string conversion of the body's
  \<open>detail\<close> when that is truthy (for a number, the string the platform writes it as), and
  \<open>HTTP\<close> with the status otherwise; and the \<open>TypeError\<close> of the property read when the
  body is JSON \<open>null\<close>.
\<close>

theorem apiCall_results:
  "apiCall_resume (Rejected e :: 'a fetch_outcome) st = (st, Inl e) \<and>
   (ok (r :: 'a response) \<longrightarrow> apiCall_resume (Resolved r) st = (st, Inr r)) \<and>
   (status r = 401 \<longrightarrow>
      apiCall_resume (Resolved r) st =
        (logout st, Inl (Error ''Session expired. Please login again.''))) \<and>
   (\<not> ok r \<and> status r \<noteq> 401 \<and> err_body r = Json_rejects e \<longrightarrow>
      apiCall_resume (Resolved r) st = (st, Inl (Error ''Request failed''))) \<and>
   (\<not> ok r \<and> status r \<noteq> 401 \<and> err_body r = Json_detail d \<and> truthy d \<longrightarrow>
      apiCall_resume (Resolved r) st = (st, Inl (Error (ToString d)))) \<and>
   (\<not> ok r \<and> status r \<noteq> 401 \<and> status r \<le> 65535 \<and> err_body r = Json_detail d \<and>
    \<not> truthy d \<longrightarrow>
      apiCall_resume (Resolved r) st = (st, Inl (Error (''HTTP '' @ decimal (status r))))) \<and>
   (\<not> ok r \<and> status r \<noteq> 401 \<and> err_body r = Json_null e \<longrightarrow>
      apiCall_resume (Resolved r) st = (st, Inl e))"
proof -
  have "truthy d \<Longrightarrow> new_Error d = Error (ToString d)"
    by (cases d) (simp_all add: new_Error_def)
  then show ?thesis
    by (simp add: apiCall_resume_def ok_def js_or_def) (simp add: new_Error_def)
qed

theorem apiCall_results_witness:
  "\<not> ok (error_response 500 (Json_rejects (SyntaxError ''Unexpected token'')) :: doc list response) \<and>
   apiCall_resume
     (Resolved (error_response 500 (Json_rejects (SyntaxError ''Unexpected token'')) :: doc list response))
     st0 = (st0, Inl (Error ''Request failed'')) \<and>
   truthy (JStr ''Not found'') \<and>
   apiCall_resume
     (Resolved (error_response 404 (Json_detail (JStr ''Not found'')) :: doc list response))
     st0 = (st0, Inl (Error ''Not found'')) \<and>
   truthy (JNum ''1e+21'') \<and>
   apiCall_resume
     (Resolved (error_response 422 (Json_detail (JNum ''1e+21'')) :: doc list response))
     st0 = (st0, Inl (Error ''1e+21'')) \<and>
   \<not> truthy JUndefined \<and> (503 :: nat) \<le> 65535 \<and>
   apiCall_resume
     (Resolved (error_response 503 (Json_detail JUndefined) :: doc list response))
     st0 = (st0, Inl (Error ''HTTP 503'')) \<and>
   ok (ok_response [doc_a]) \<and>
   apiCall_resume (Resolved (ok_response [doc_a])) st0 = (st0, Inr (ok_response [doc_a])) \<and>
   status (unauthorized :: doc list response) = 401 \<and>
   apiCall_resume (Resolved (unauthorized :: doc list response)) st0 =
     (logout st0, Inl (Error ''Session expired. Please login again.''))"
proof -
  let ?e = "SyntaxError ''Unexpected token''"
  let ?r1 = "error_response 500 (Json_rejects ?e) :: doc list response"
  let ?r2 = "error_response 404 (Json_detail (JStr ''Not found'')) :: doc list response"
  let ?r3 = "error_response 503 (Json_detail JUndefined) :: doc list response"
  let ?r4 = "error_response 422 (Json_detail (JNum ''1e+21'')) :: doc list response"
  have d: "decimal 503 = ''503''"
    by code_simp
  have "apiCall_resume (Resolved ?r1) st0 = (st0, Inl (Error ''Request failed''))"
    using apiCall_results [of ?e st0 ?r1] by (simp add: error_response_def ok_def)
  moreover
  have "apiCall_resume (Resolved ?r2) st0 = (st0, Inl (Error ''Not found''))"
    using apiCall_results [of ?e st0 ?r2 "JStr ''Not found''"]
    by (simp add: error_response_def ok_def)
  moreover
  have "apiCall_resume (Resolved ?r4) st0 = (st0, Inl (Error ''1e+21''))"
    using apiCall_results [of ?e st0 ?r4 "JNum ''1e+21''"]
    by (simp add: error_response_def ok_def)
  moreover
  have "apiCall_resume (Resolved ?r3) st0 = (st0, Inl (Error ''HTTP 503''))"
    using apiCall_results [of ?e st0 ?r3 JUndefined] d
    by (simp add: error_response_def ok_def)
  moreover
  have "apiCall_resume (Resolved (ok_response [doc_a])) st0 = (st0, Inr (ok_response [doc_a]))"
    using apiCall_results [of ?e st0 "ok_response [doc_a]"]
    by (simp add: ok_response_def ok_def)
  moreover
  have "apiCall_resume (Resolved (unauthorized :: doc list response)) st0 =
     (logout st0, Inl (Error ''Session expired. Please login again.''))"
    using apiCall_results [of ?e st0 "unauthorized :: doc list response"]
    by (simp add: unauthorized_def error_response_def)
  ultimately show ?thesis
    by (simp add: error_response_def ok_response_def unauthorized_def ok_def)
qed

text \<open>
  From \<open>st0\<close>: a successful call hands the caller the response object, whose body is not
  yet read; a transport failure reaches the caller as the \<open>TypeError\<close> that \<open>fetch\<close>
  rejected with; and a 500 response whose \<open>detail\<close> is the session-expired sentence
  throws the same value as a 401 does, so the value does not tell the two kinds apart.
\<close>

theorem apiCall_error_kinds_counterexample:
  "snd (apiCall_resume (Resolved (ok_response [doc_a])) st0) = Inr (ok_response [doc_a]) \<and>
   snd (apiCall_resume (Rejected (TypeError ''Failed to fetch'') :: doc list fetch_outcome) st0)
     = Inl (TypeError ''Failed to fetch'') \<and>
   snd (apiCall_resume (Resolved (unauthorized :: doc list response)) st0) =
   snd (apiCall_resume
          (Resolved (error_response 500
             (Json_detail (JStr ''Session expired. Please login again.'')) :: doc list response))
          st0)"
  by (simp add: apiCall_resume_def ok_def ok_response_def unauthorized_def error_response_def
      js_or_def new_Error_def)

text \<open>
  C4, as the code has it. A successful list fetch replaces the collection by the response
  array and renders it. A successful search renders its result and leaves the collection
  as it was.
\<close>

theorem list_replaces_collection_search_only_renders:
  "ok r \<Longrightarrow> ok_body r = Inr ds \<Longrightarrow>
     documents (loadDocuments_resume rq (Resolved r) st) = ds \<and>
     documentsGrid (loadDocuments_resume rq (Resolved r) st) = ds \<and>
     documents (performSemanticSearch_resume rq (Resolved r) st) = documents st \<and>
     documentsGrid (performSemanticSearch_resume rq (Resolved r) st) = ds"
  by (simp add: loadDocuments_resume_def performSemanticSearch_resume_def apiCall_resume_def
      received_def renderDocuments_def updateFilters_def Let_def)

theorem list_replaces_collection_search_only_renders_witness:
  "ok (ok_response [doc_b]) \<and>
   documents (loadDocuments_resume (search_request ''lease'') (Resolved (ok_response [doc_b])) st0)
     = [doc_b] \<and>
   documents
     (performSemanticSearch_resume (search_request ''lease'') (Resolved (ok_response [doc_b])) st0)
     = documents st0"
proof -
  have h1: "ok (ok_response [doc_b])"
    by (simp add: ok_def ok_response_def)
  have h2: "ok_body (ok_response [doc_b]) = Inr [doc_b]"
    by (simp add: ok_response_def)
  show ?thesis
    using h1 list_replaces_collection_search_only_renders [OF h1 h2] by simp
qed

text \<open>After a successful search for \<open>lease\<close> that returns one document, the collection
  still holds the two documents of the list: it does not equal the search result.\<close>

theorem search_replaces_collection_counterexample:
  "documents
     (performSemanticSearch_resume (search_request ''lease'') (Resolved (ok_response [doc_b])) st0)
     = [doc_a, doc_b] \<and>
   documents
     (performSemanticSearch_resume (search_request ''lease'') (Resolved (ok_response [doc_b])) st0)
     \<noteq> [doc_b]"
  by (simp add: performSemanticSearch_resume_def apiCall_resume_def ok_def ok_response_def
      received_def renderDocuments_def st0_def)

lemma upload_frame:
  "accessToken (fst (uploadSingleFile f out st)) = accessToken st"
  "alerts (fst (uploadSingleFile f out st)) = alerts st"
  "net_log (fst (uploadSingleFile f out st)) =
     net_log st @ [Request_sent (upload_request st f), Response_received (upload_request st f)]"
  by (auto simp add: uploadSingleFile_def Let_def received_def sent_def
      split: fetch_outcome.splits sum.splits err_json.splits)

lemma upload_request_token:
  "accessToken st' = accessToken st \<Longrightarrow> upload_request st' f = upload_request st f"
  by (simp add: upload_request_def bearer_def)

lemma upload_error_state:
  "snd (uploadSingleFile f out st') = snd (uploadSingleFile f out st)"
  by (auto simp add: uploadSingleFile_def Let_def
      split: fetch_outcome.splits sum.splits err_json.splits)

lemma upload_each_effects:
  fixes files :: "(js_file \<times> 'a fetch_outcome) list"
  shows "accessToken (upload_each files st) = accessToken st \<and>
   net_log (upload_each files st) =
     net_log st @
       concat (map (\<lambda>(f, out). [Request_sent (upload_request st f),
                                 Response_received (upload_request st f)])
         (filter (\<lambda>(f, out). type f \<in> set allowedTypes) files)) \<and>
   alerts (upload_each files st) =
     alerts st @
       concat (map (\<lambda>(f, out).
           if type f \<notin> set allowedTypes then [not_supported f]
           else (case snd (uploadSingleFile f out st) of
                   None \<Rightarrow> []
                 | Some e \<Rightarrow> [upload_failed f e])) files)"
proof (induction files arbitrary: st)
  case Nil
  then show ?case by simp
next
  case (Cons p files)
  obtain f out where p: "p = (f, out)" by (cases p)
  show ?case
  proof (cases "type f \<in> set allowedTypes")
    case False
    let ?st1 = "alert (not_supported f) st"
    have tok: "accessToken ?st1 = accessToken st" by (simp add: alert_def)
    have rq: "\<And>g. upload_request ?st1 g = upload_request st g"
      using tok by (rule upload_request_token)
    have er: "\<And>g (o' :: 'a fetch_outcome). snd (uploadSingleFile g o' ?st1) = snd (uploadSingleFile g o' st)"
      by (rule upload_error_state)
    show ?thesis
      using Cons.IH [of ?st1] False p
      by (simp add: rq er tok cong: if_cong) (simp add: alert_def)
  next
    case True
    obtain st1 r where u: "uploadSingleFile f out st = (st1, r)" by (cases "uploadSingleFile f out st")
    have tok1: "accessToken st1 = accessToken st"
      and al1: "alerts st1 = alerts st"
      and nl1: "net_log st1 = net_log st @ [Request_sent (upload_request st f), Response_received (upload_request st f)]"
      using upload_frame [of f out st] u by simp_all
    show ?thesis
    proof (cases r)
      case None
      have rq: "\<And>g. upload_request st1 g = upload_request st g"
        using tok1 by (rule upload_request_token)
      have er: "\<And>g (o' :: 'a fetch_outcome). snd (uploadSingleFile g o' st1) = snd (uploadSingleFile g o' st)"
        by (rule upload_error_state)
      show ?thesis
        using Cons.IH [of st1] True p u None
        by (simp add: rq er tok1 al1 nl1 cong: if_cong)
    next
      case (Some e)
      let ?st2 = "alert (upload_failed f e) st1"
      have tok2: "accessToken ?st2 = accessToken st" using tok1 by (simp add: alert_def)
      have rq: "\<And>g. upload_request ?st2 g = upload_request st g"
        using tok2 by (rule upload_request_token)
      have er: "\<And>g (o' :: 'a fetch_outcome). snd (uploadSingleFile g o' ?st2) = snd (uploadSingleFile g o' st)"
        by (rule upload_error_state)
      have al2: "alerts ?st2 = alerts st @ [upload_failed f e]"
        using al1 by (simp add: alert_def)
      have nl2: "net_log ?st2 = net_log st @ [Request_sent (upload_request st f), Response_received (upload_request st f)]"
        using nl1 by (simp add: alert_def)
      show ?thesis
        using Cons.IH [of ?st2] True p u Some
        by (simp add: rq er tok2 al2 nl2 cong: if_cong)
    qed
  qed
qed

text \<open>
  C5. For every batch, whatever the outcome of each upload: the network log gains, for
  each file of an allowed type and in batch order, the sending of its own request
  (a form with that one file) directly followed by its settling, so that no upload is
  sent before the one before it has settled, and then the request of the list reload;
  the alerts gained are, in batch order, one naming each file of another type and one
  naming each file whose upload threw. A file that is rejected or fails changes nothing
  for the files after it.
\<close>

theorem upload_batch:
  fixes files :: "(js_file \<times> 'a fetch_outcome) list"
  shows
  "net_log (handleFileUpload files st) =
     net_log st @
       concat (map (\<lambda>(f, out). [Request_sent (upload_request st f),
                                 Response_received (upload_request st f)])
         (filter (\<lambda>(f, out). type f \<in> set allowedTypes) files)) @
       (if files = [] then [] else [Request_sent (apiCall_request st ''/documents/'' no_options)]) \<and>
   alerts (handleFileUpload files st) =
     alerts st @
       concat (map (\<lambda>(f, out).
           if type f \<notin> set allowedTypes then [not_supported f]
           else (case snd (uploadSingleFile f out st) of
                   None \<Rightarrow> []
                 | Some e \<Rightarrow> [upload_failed f e])) files) \<and>
   body (upload_request st g) = FormData [(''file'', g)]"
proof (cases "files = []")
  case True
  then show ?thesis
    by (simp add: handleFileUpload_def upload_request_def)
next
  case False
  have rq: "apiCall_request (upload_each files st) = apiCall_request st"
    using upload_each_effects [of files st]
    by (intro ext) (simp add: apiCall_request_def defaultHeaders_def)
  show ?thesis
    using False upload_each_effects [of files st]
    by (simp add: handleFileUpload_def loadDocuments_start_def sent_def rq upload_request_def)
qed

theorem upload_batch_witness:
  "alerts (handleFileUpload [(file1, uploaded), (file2, uploaded), (file3, uploaded)] st0) =
     [''File '' @ [CHR 0x22] @ ''photo.png'' @ [CHR 0x22] @
      '' is not supported. Please upload PDF, DOCX, or TXT files only.''] \<and>
   net_log (handleFileUpload [(file1, uploaded), (file2, uploaded), (file3, uploaded)] st0) =
     [Request_sent (upload_request st0 file1), Response_received (upload_request st0 file1),
      Request_sent (upload_request st0 file3), Response_received (upload_request st0 file3),
      Request_sent (apiCall_request st0 ''/documents/'' no_options)] \<and>
   alerts (handleFileUpload
       [(file1, Rejected (TypeError ''Failed to fetch'')), (file2, uploaded), (file3, uploaded)] st0) =
     [''Failed to upload q1.pdf: Failed to fetch'',
      ''File '' @ [CHR 0x22] @ ''photo.png'' @ [CHR 0x22] @
      '' is not supported. Please upload PDF, DOCX, or TXT files only.''] \<and>
   net_log (handleFileUpload
       [(file1, Rejected (TypeError ''Failed to fetch'')), (file2, uploaded), (file3, uploaded)] st0) =
     [Request_sent (upload_request st0 file1), Response_received (upload_request st0 file1),
      Request_sent (upload_request st0 file3), Response_received (upload_request st0 file3),
      Request_sent (apiCall_request st0 ''/documents/'' no_options)]"
proof -
  have t: "type file1 \<in> set allowedTypes" "type file2 \<notin> set allowedTypes"
    "type file3 \<in> set allowedTypes"
    by (simp_all add: file1_def file2_def file3_def allowedTypes_def)
  have u: "snd (uploadSingleFile f uploaded st0) = None" for f
    by (simp add: uploadSingleFile_def uploaded_def ok_response_def ok_def Let_def)
  have r: "snd (uploadSingleFile f (Rejected (TypeError ''Failed to fetch'') :: unit fetch_outcome) st0) =
      Some (TypeError ''Failed to fetch'')" for f
    by (simp add: uploadSingleFile_def Let_def)
  have a: "alerts st0 = []" "net_log st0 = []"
    by (simp_all add: st0_def)
  have m: "not_supported file2 = ''File '' @ [CHR 0x22] @ ''photo.png'' @ [CHR 0x22] @
      '' is not supported. Please upload PDF, DOCX, or TXT files only.''"
    "upload_failed file1 (TypeError ''Failed to fetch'') = ''Failed to upload q1.pdf: Failed to fetch''"
    by (simp_all add: not_supported_def upload_failed_def file1_def file2_def)
  show ?thesis
    using upload_batch [of "[(file1, uploaded), (file2, uploaded), (file3, uploaded)]" st0]
      upload_batch [of "[(file1, Rejected (TypeError ''Failed to fetch'')), (file2, uploaded),
         (file3, uploaded)]" st0]
    by (simp add: t u r a m)
qed

lemma advance_idle: "searchTimeout st = None \<Longrightarrow> advance t st = st"
  by (simp add: advance_def)

lemma keystrokes_pending:
  "within_window ((t, v) # ks) \<Longrightarrow> advance t st = st \<Longrightarrow>
   keystrokes ((t, v) # ks) st =
     st\<lparr>searchInput := snd (last ((t, v) # ks)),
        searchTimeout := Some (fst (last ((t, v) # ks)) + 500)\<rparr>"
proof (induction ks arbitrary: t v st)
  case Nil
  then show ?case by (simp add: searchInput_input_def)
next
  case (Cons k ks)
  obtain t2 v2 where k: "k = (t2, v2)" by (cases k)
  let ?st1 = "searchInput_input t v st"
  from Cons.prems k have w: "within_window ((t2, v2) # ks)" and lt: "t2 < t + 500"
    by simp_all
  have "advance t2 ?st1 = ?st1"
    using lt by (simp add: advance_def searchInput_input_def)
  from Cons.IH [OF w this] Cons.prems(2) k
  show ?case by (simp add: searchInput_input_def)
qed

text \<open>
  C6. While keystrokes follow one another by less than 500 ms, no timer fires and nothing
  is sent. Once 500 ms have passed after the last one, the callback has run exactly once,
  on the value of the field after the last keystroke: the log holds one search request,
  for that value, if its trimmed length is at least 3, and none otherwise.
\<close>

theorem debounce_dispatches_last_value:
  assumes "ks \<noteq> []" and "within_window ks" and "searchTimeout st = None"
    and "fst (last ks) + 500 \<le> T"
  shows "net_log (keystrokes ks st) = net_log st \<and>
     advance T (keystrokes ks st) =
       searchTimeout_callback (st\<lparr>searchInput := snd (last ks), searchTimeout := None\<rparr>) \<and>
     net_log (advance T (keystrokes ks st)) =
       net_log st @
         (if length (trim (snd (last ks))) \<ge> 3
          then [Request_sent (apiCall_request st
                  (''/search/?query='' @ encodeURIComponent (trim (snd (last ks)))) no_options)]
          else [])"
proof -
  obtain t v ks' where ks: "ks = (t, v) # ks'"
    using assms(1) by (cases ks) auto
  have "advance t st = st"
    using assms(3) by (rule advance_idle)
  with assms(2) ks have run: "keystrokes ks st =
     st\<lparr>searchInput := snd (last ks), searchTimeout := Some (fst (last ks) + 500)\<rparr>"
    using keystrokes_pending by simp
  show ?thesis
    using assms(4) unfolding run
    by (simp add: advance_def searchTimeout_callback_def Let_def performSemanticSearch_start_def
        sent_def renderDocuments_def apiCall_request_def defaultHeaders_def)
qed

theorem debounce_dispatches_last_value_witness:
  "within_window [(0, ''a''), (120, ''ab''), (260, ''abc'')] \<and>
   net_log (keystrokes [(0, ''a''), (120, ''ab''), (260, ''abc'')] st0) = [] \<and>
   net_log (advance 760 (keystrokes [(0, ''a''), (120, ''ab''), (260, ''abc'')] st0)) =
     [Request_sent (search_request ''abc'')]"
proof -
  let ?ks = "[(0::nat, ''a''), (120, ''ab''), (260, ''abc'')]"
  have h1: "?ks \<noteq> []" by simp
  have h2: "within_window ?ks" by simp
  have h3: "searchTimeout st0 = None" by (simp add: st0_def)
  have h4: "fst (last ?ks) + 500 \<le> 760" by simp
  have t: "trim ''abc'' = ''abc''" by (simp add: trim_def is_space_def)
  have n: "net_log st0 = []" by (simp add: st0_def)
  from debounce_dispatches_last_value [OF h1 h2 h3 h4]
  have "net_log (keystrokes ?ks st0) = net_log st0"
    and "net_log (advance 760 (keystrokes ?ks st0)) =
       net_log st0 @
         (if length (trim (snd (last ?ks))) \<ge> 3
          then [Request_sent (apiCall_request st0
                  (''/search/?query='' @ encodeURIComponent (trim (snd (last ?ks)))) no_options)]
          else [])"
    by blast+
  then show ?thesis using h2 by (simp add: t n search_request_def)
qed

text \<open>
  C7. When the timer's callback runs, the settled query is the trimmed value of the
  field. With three characters or more, one search request for it is sent and the view
  is left as it is until the response comes; a successful response then replaces the view
  by its result alone and leaves the collection untouched. With an empty query the view
  becomes the cached collection and nothing is sent. With one or two characters the state
  does not change.
\<close>

theorem settled_query_dispatch:
  "(3 \<le> length (trim (searchInput st)) \<longrightarrow>
      net_log (searchTimeout_callback st) =
        net_log st @
          [Request_sent (apiCall_request st
             (''/search/?query='' @ encodeURIComponent (trim (searchInput st))) no_options)] \<and>
      documentsGrid (searchTimeout_callback st) = documentsGrid st \<and>
      documents (searchTimeout_callback st) = documents st) \<and>
   (ok r \<and> ok_body r = Inr ds \<longrightarrow>
      documentsGrid (performSemanticSearch_resume rq (Resolved r) st') = ds \<and>
      documents (performSemanticSearch_resume rq (Resolved r) st') = documents st') \<and>
   (trim (searchInput st) = [] \<longrightarrow>
      searchTimeout_callback st = st\<lparr>documentsGrid := documents st\<rparr> \<and>
      net_log (searchTimeout_callback st) = net_log st) \<and>
   (length (trim (searchInput st)) \<in> {1, 2} \<longrightarrow> searchTimeout_callback st = st)"
  by (auto simp add: searchTimeout_callback_def Let_def performSemanticSearch_start_def
      sent_def renderDocuments_def performSemanticSearch_resume_def apiCall_resume_def
      received_def)

theorem settled_query_dispatch_witness:
  "3 \<le> length (trim (searchInput (st0\<lparr>searchInput := '' lease ''\<rparr>))) \<and>
   net_log (searchTimeout_callback (st0\<lparr>searchInput := '' lease ''\<rparr>)) =
     [Request_sent (search_request ''lease'')] \<and>
   ok (ok_response [doc_b]) \<and>
   documentsGrid
     (performSemanticSearch_resume (search_request ''lease'') (Resolved (ok_response [doc_b]))
        (searchTimeout_callback (st0\<lparr>searchInput := '' lease ''\<rparr>))) = [doc_b] \<and>
   trim (searchInput (st0\<lparr>searchInput := ''  '', documentsGrid := [doc_b]\<rparr>)) = [] \<and>
   documentsGrid (searchTimeout_callback (st0\<lparr>searchInput := ''  '', documentsGrid := [doc_b]\<rparr>))
     = [doc_a, doc_b] \<and>
   length (trim (searchInput (st0\<lparr>searchInput := ''le'', documentsGrid := [doc_b]\<rparr>))) \<in> {1, 2} \<and>
   searchTimeout_callback (st0\<lparr>searchInput := ''le'', documentsGrid := [doc_b]\<rparr>) =
     st0\<lparr>searchInput := ''le'', documentsGrid := [doc_b]\<rparr>"
proof -
  let ?s1 = "st0\<lparr>searchInput := '' lease ''\<rparr>"
  let ?s2 = "st0\<lparr>searchInput := ''  '', documentsGrid := [doc_b]\<rparr>"
  let ?s3 = "st0\<lparr>searchInput := ''le'', documentsGrid := [doc_b]\<rparr>"
  let ?r = "ok_response [doc_b]"
  have t1: "trim (searchInput ?s1) = ''lease''"
    by (simp add: trim_def is_space_def)
  have t2: "trim (searchInput ?s2) = []"
    by (simp add: trim_def is_space_def)
  have t3: "trim (searchInput ?s3) = ''le''"
    by (simp add: trim_def is_space_def)
  have rq: "apiCall_request ?s1 = apiCall_request st0"
    by (rule ext)+ (simp add: apiCall_request_def defaultHeaders_def)
  have r: "ok ?r" "ok_body ?r = Inr [doc_b]"
    by (simp_all add: ok_def ok_response_def)
  have "net_log (searchTimeout_callback ?s1) = [Request_sent (search_request ''lease'')]"
    using settled_query_dispatch [of ?s1] t1 rq by (simp add: search_request_def st0_def)
  moreover
  have "documentsGrid
     (performSemanticSearch_resume (search_request ''lease'') (Resolved ?r)
        (searchTimeout_callback ?s1)) = [doc_b]"
    using settled_query_dispatch [of _ ?r "[doc_b]" "search_request ''lease''"
        "searchTimeout_callback ?s1"] r
    by simp
  moreover
  have "documentsGrid (searchTimeout_callback ?s2) = [doc_a, doc_b]"
    using settled_query_dispatch [of ?s2] t2 by (simp add: st0_def)
  moreover
  have "searchTimeout_callback ?s3 = ?s3"
    using settled_query_dispatch [of ?s3] t3 by simp
  ultimately show ?thesis
    using t1 t2 t3 r by simp
qed

lemma str_includes_iff: "str_includes s t \<longleftrightarrow> (\<exists>xs ys. s = xs @ t @ ys)"
proof (induction s)
  case Nil
  then show ?case by simp
next
  case (Cons c cs)
  show ?case
  proof
    assume "str_includes (c # cs) t"
    then consider "prefix t (c # cs)" | "str_includes cs t" by auto
    then show "\<exists>xs ys. c # cs = xs @ t @ ys"
    proof cases
      case 1
      then obtain ys where "c # cs = t @ ys" by (auto simp: prefix_def)
      then have "c # cs = [] @ t @ ys" by simp
      then show ?thesis by blast
    next
      case 2
      with Cons.IH obtain xs ys where "cs = xs @ t @ ys" by blast
      then have "c # cs = (c # xs) @ t @ ys" by simp
      then show ?thesis by blast
    qed
  next
    assume "\<exists>xs ys. c # cs = xs @ t @ ys"
    then obtain xs ys where e: "c # cs = xs @ t @ ys" by blast
    show "str_includes (c # cs) t"
    proof (cases xs)
      case Nil
      with e have "prefix t (c # cs)" by (simp add: prefix_def)
      then show ?thesis by simp
    next
      case (Cons x xs')
      with e have "cs = xs' @ t @ ys" by simp
      with Cons.IH have "str_includes cs t" by blast
      then show ?thesis by simp
    qed
  qed
qed

lemma toLowerCase_empty: "toLowerCase s = [] \<longleftrightarrow> s = []"
  by (simp add: toLowerCase_def)

lemma date_matches_iff:
  assumes "- 8640000000000000 + 2592000000 \<le> now" and "now \<le> 8640000000000000"
  shows "date_matches pf now dv d \<longleftrightarrow>
    (dv = ''today'' \<longrightarrow>
       (\<exists>t. Date_parse pf (upload_date d) = Some t \<and>
            (t + local_offset pf t) div 86400000 = (now + local_offset pf now) div 86400000)) \<and>
    (dv = ''week'' \<longrightarrow>
       (\<exists>t. Date_parse pf (upload_date d) = Some t \<and> now - 7 * 24 * 3600000 \<le> t)) \<and>
    (dv = ''month'' \<longrightarrow>
       (\<exists>t. Date_parse pf (upload_date d) = Some t \<and> now - 30 * 24 * 3600000 \<le> t))"
  using assms
  by (auto simp add: date_matches_def new_Date_string_def TimeClip_def toDateString_def Let_def
      split: option.splits)

text \<open>
  C8, as the code has it. With \<open>now\<close> a time value from which 30 days can be taken,
  \<open>filterDocuments\<close> renders exactly the documents of the collection that satisfy every
  selected filter: the category equals the selected one, both in lower case; the author
  is present and contains the selected text; for \<open>today\<close> the upload date is valid and on
  the local calendar day of \<open>now\<close>; for \<open>week\<close> it is valid and not earlier than
  7 x 24 hours before \<open>now\<close>; for \<open>month\<close> not earlier than 30 x 24 hours before
  \<open>now\<close>. The two windows have no upper end. An empty selection, and any other value of
  the date filter, imposes nothing.
\<close>

theorem filter_keeps_matching:
  assumes "- 8640000000000000 + 2592000000 \<le> now" and "now \<le> 8640000000000000"
  shows "documentsGrid (filterDocuments pf now cv av dv st) =
    filter (\<lambda>d.
      (cv \<noteq> [] \<longrightarrow> toLowerCase (category d) = toLowerCase cv) \<and>
      (av \<noteq> [] \<longrightarrow> (\<exists>a xs ys. author d = Some a \<and> a = xs @ av @ ys)) \<and>
      (dv = ''today'' \<longrightarrow>
         (\<exists>t. Date_parse pf (upload_date d) = Some t \<and>
              (t + local_offset pf t) div 86400000 = (now + local_offset pf now) div 86400000)) \<and>
      (dv = ''week'' \<longrightarrow>
         (\<exists>t. Date_parse pf (upload_date d) = Some t \<and> now - 7 * 24 * 3600000 \<le> t)) \<and>
      (dv = ''month'' \<longrightarrow>
         (\<exists>t. Date_parse pf (upload_date d) = Some t \<and> now - 30 * 24 * 3600000 \<le> t)))
     (documents st)"
proof -
  have a: "(case author d of None \<Rightarrow> False | Some a \<Rightarrow> a \<noteq> [] \<and> str_includes a av) \<longleftrightarrow>
      (\<exists>a xs ys. author d = Some a \<and> a = xs @ av @ ys)" if "av \<noteq> []" for d
    using that by (auto simp add: str_includes_iff split: option.splits)
  note dm = date_matches_iff [OF assms]
  have dv: "dv = [] \<Longrightarrow> dv \<noteq> ''today'' \<and> dv \<noteq> ''week'' \<and> dv \<noteq> ''month''"
    by auto
  show ?thesis
    unfolding filterDocuments_def Let_def renderDocuments_def
    by (cases "cv = []"; cases "av = []"; cases "dv = []")
       (auto simp add: toLowerCase_empty a dm intro!: filter_cong)
qed

theorem filter_keeps_matching_witness:
  "- 8640000000000000 + 2592000000 \<le> now0 \<and> now0 \<le> 8640000000000000 \<and>
   documentsGrid (filterDocuments pf0 now0 [] [] ''week'' st0) = [doc_b] \<and>
   documentsGrid (filterDocuments pf0 now0 ''Finance'' ''ann'' ''month'' st0) = [doc_a] \<and>
   documentsGrid (filterDocuments pf0 now0 [] [] ''today'' st0) = []"
proof -
  have h1: "- 8640000000000000 + 2592000000 \<le> now0" and h2: "now0 \<le> 8640000000000000"
    by (simp_all add: now0_def)
  have p: "Date_parse pf0 (upload_date doc_a) = Some 1714557600000"
    "Date_parse pf0 (upload_date doc_b) = Some 1716197400000"
    "local_offset pf0 = (\<lambda>t. 0)"
    by (simp_all add: pf0_def doc_a_def doc_b_def)
  have d: "documents st0 = [doc_a, doc_b]"
    by (simp add: st0_def)
  have c: "toLowerCase (category doc_a) = toLowerCase ''Finance''"
    by (simp add: doc_a_def toLowerCase_def)
  have a: "author doc_a = Some ''Joanne''" "author doc_b = None"
    by (simp_all add: doc_a_def doc_b_def)
  have j: "\<exists>xs ys. ''Joanne'' = xs @ CHR ''a'' # CHR ''n'' # CHR ''n'' # ys"
    by (rule exI [of _ "''Jo''"], rule exI [of _ "''e''"]) simp
  have "documentsGrid (filterDocuments pf0 now0 [] [] ''week'' st0) = [doc_b]"
    using filter_keeps_matching [OF h1 h2, of pf0 "[]" "[]" "''week''" st0]
    by (simp add: p d now0_def)
  moreover
  have "documentsGrid (filterDocuments pf0 now0 ''Finance'' ''ann'' ''month'' st0) = [doc_a]"
    using filter_keeps_matching [OF h1 h2, of pf0 "''Finance''" "''ann''" "''month''" st0]
    by (simp add: p d c a j now0_def)
  moreover
  have "documentsGrid (filterDocuments pf0 now0 [] [] ''today'' st0) = []"
    using filter_keeps_matching [OF h1 h2, of pf0 "[]" "[]" "''today''" st0]
    by (simp add: p d now0_def)
  ultimately show ?thesis
    using h1 h2 by simp
qed

text \<open>
  A document whose upload date is an hour after \<open>now\<close> was not uploaded within the last
  7 x 24 hours, and the \<open>week\<close> filter keeps it.
\<close>

theorem week_window_counterexample:
  "Date_parse pf0 (upload_date doc_c) = Some 1716303600000 \<and> now0 < 1716303600000 \<and>
   documentsGrid (filterDocuments pf0 now0 [] [] ''week'' (st0\<lparr>documents := [doc_a, doc_c]\<rparr>))
     = [doc_c]"
  by (simp add: filterDocuments_def Let_def renderDocuments_def date_matches_def
      new_Date_string_def TimeClip_def pf0_def now0_def doc_a_def doc_c_def toLowerCase_def)

text \<open>
  C9. \<open>filterDocuments\<close> leaves the collection and the network log as they are: it
  changes nothing but the rendered view. Run again with the same arguments at the same
  time on the state it produced, it produces that state again.
\<close>

theorem filterDocuments_pure_idempotent:
  "documents (filterDocuments pf now cv av dv st) = documents st \<and>
   net_log (filterDocuments pf now cv av dv st) = net_log st \<and>
   filterDocuments pf now cv av dv st =
     st\<lparr>documentsGrid := documentsGrid (filterDocuments pf now cv av dv st)\<rparr> \<and>
   filterDocuments pf now cv av dv (filterDocuments pf now cv av dv st) =
     filterDocuments pf now cv av dv st"
  by (simp add: filterDocuments_def Let_def renderDocuments_def)

text \<open>
  C10. \<open>logout()\<close> clears the user, the token and the persisted token and empties the
  document collection; so does a logout triggered by a 401 response in \<open>apiCall\<close>; and
  calling \<open>logout()\<close> again changes nothing.
\<close>

theorem logout_clears_and_idempotent:
  "currentUser (logout st) = None \<and> accessToken (logout st) = None \<and>
   localStorage (logout st) = None \<and> documents (logout st) = [] \<and>
   logout (logout st) = logout st \<and>
   (status r = 401 \<longrightarrow>
      fst (apiCall_resume (Resolved r) st) = logout st \<and>
      documents (fst (apiCall_resume (Resolved r) st)) = [])"
  by (simp add: logout_def showLogin_def apiCall_resume_def ok_def)

theorem logout_clears_and_idempotent_witness:
  "status (unauthorized :: doc list response) = 401 \<and>
   documents (fst (apiCall_resume (Resolved (unauthorized :: doc list response)) st0)) = [] \<and>
   accessToken (logout st0) = None \<and> logout (logout st0) = logout st0"
  using logout_clears_and_idempotent [of st0 "unauthorized :: doc list response"]
  by (simp add: unauthorized_def error_response_def)

end
